theory Spec2Isabelle
  imports Main "HOL-Library.Sublist" "HOL-Library.Multiset" "HOL-Library.AList"
begin

section \<open>Data exchanged with the analysis\<close>

text \<open>
  The model follows \<^verbatim>\<open>api.py\<close>. Python strings are \<^typ>\<open>string\<close>, Python integers are
  \<^typ>\<open>int\<close>, a raised exception is the left summand of a sum type and carries the text
  that \<^verbatim>\<open>str(e)\<close> would give.
\<close>

datatype exn = Exception (str: string) | TypeError (str: string)

text \<open>
  The dictionary returned by \<^verbatim>\<open>ResumeParser(path).get_extracted_data()\<close>. For each key the
  record tells whether the dictionary lacks it, has it with Python's \<^verbatim>\<open>None\<close>, or has it with a
  value of the type that the interface of the parser gives.
\<close>

datatype 'a entry = Absent | Null | Holds 'a

record resume_data =
  key_name :: "string entry"
  key_email :: "string entry"
  key_mobile_number :: "string entry"
  key_skills :: "string list entry"
  key_no_of_pages :: "int entry"

text \<open>
  \<^verbatim>\<open>d.get(key)\<close> and \<^verbatim>\<open>d.get(key, default)\<close>; the result \<^term>\<open>None\<close> is Python's \<^verbatim>\<open>None\<close>. The
  default stands in for an absent key only, not for a key that holds \<^verbatim>\<open>None\<close>.
\<close>

fun dict_get :: "'a entry \<Rightarrow> 'a option" where
  "dict_get Absent = None"
| "dict_get Null = None"
| "dict_get (Holds v) = Some v"

fun dict_get_default :: "'a entry \<Rightarrow> 'a \<Rightarrow> 'a option" where
  "dict_get_default Absent dflt = Some dflt"
| "dict_get_default Null dflt = None"
| "dict_get_default (Holds v) dflt = Some v"

text \<open>A Python dictionary with insertion order: an association list with distinct keys.\<close>

type_synonym ('k, 'v) dict = "('k \<times> 'v) list"

record 'v analysis_result =
  name :: "string option"
  email :: "string option"
  mobile_number :: "string option"
  skills :: "string list option"
  no_of_pages :: "int option"
  candidate_level :: string
  predicted_field :: string
  recommended_skills :: "string list"
  recommended_courses :: "(string, string) dict list"
  resume_score :: int
  score_breakdown :: "(string, bool) dict"
  resume_video_rec :: "'v option"
  interview_video_rec :: "'v option"
  timestamp :: string

text \<open>
  What \<^verbatim>\<open>analyze_resume\<close> returns: the dictionary with the single key \<^verbatim>\<open>"error"\<close>, or the
  dictionary of results.
\<close>

datatype 'v response = ErrorDict string | AnalysisDict "'v analysis_result"

section \<open>Process state and collaborators\<close>

text \<open>
  The random source of module \<^verbatim>\<open>random\<close> is an infinite sequence of draws; one call of
  \<^verbatim>\<open>_randbelow(n)\<close> consumes the first draw and yields a number below \<open>n\<close>.
\<close>

type_synonym rng = "nat \<Rightarrow> nat"

definition randbelow :: "nat \<Rightarrow> rng \<Rightarrow> nat \<times> rng" where
  "randbelow n g = (g 0 mod n, \<lambda>k. g (Suc k))"

datatype call = ResumeParser_call string | pdf_reader_call string

text \<open>
  The module-level lists imported from \<^verbatim>\<open>Courses.py\<close> (their contents are data outside the
  file, hence arbitrary here), the random source, and the log of calls made to the two
  extraction libraries.
\<close>

record 'v world =
  ds_course :: "(string \<times> string) list"
  web_course :: "(string \<times> string) list"
  android_course :: "(string \<times> string) list"
  ios_course :: "(string \<times> string) list"
  uiux_course :: "(string \<times> string) list"
  resume_videos :: "'v list"
  interview_videos :: "'v list"
  rng :: rng
  calls :: "call list"

text \<open>
  The behaviour of the libraries on a path: what the parser returns (\<^term>\<open>None\<close> stands for a
  falsy value, Python's \<^verbatim>\<open>None\<close> or an empty dictionary) or raises; whether opening the
  file and starting the page iteration raises, and for each page the text that processing it
  appends to the buffer, or the exception it raises; the clock reading.
\<close>

record env =
  get_extracted_data :: "string \<Rightarrow> exn + resume_data option"
  get_pages :: "string \<Rightarrow> exn + (exn + string) list"
  now_isoformat :: string

section \<open>Strings\<close>

text \<open>
  \<^verbatim>\<open>str.lower()\<close> on the ASCII range; other characters are left as they are, although
  Python also lower-cases letters outside ASCII. The keywords of the analysis are ASCII, and
  no statement below depends on how a character outside ASCII is lower-cased. Python's
  \<^verbatim>\<open>k in text\<close> on strings is contiguous containment, \<^const>\<open>sublist\<close>.
\<close>

definition lower_char :: "char \<Rightarrow> char" where
  "lower_char c =
     (let n = (of_char c :: nat) in if 65 \<le> n \<and> n \<le> 90 then char_of (n + 32) else c)"

definition lower :: "string \<Rightarrow> string" where
  "lower s = map lower_char s"

section \<open>pdf_reader\<close>

fun process_pages :: "(exn + string) list \<Rightarrow> string \<Rightarrow> exn + string" where
  "process_pages [] buf = Inr buf"
| "process_pages (Inl e # pages) buf = Inl e"
| "process_pages (Inr t # pages) buf = process_pages pages (buf @ t)"

definition pdf_reader :: "env \<Rightarrow> string \<Rightarrow> exn + string" where
  "pdf_reader env file_path =
     (case get_pages env file_path of
        Inl e \<Rightarrow> Inl e
      | Inr pages \<Rightarrow> process_pages pages [])"

section \<open>course_recommender\<close>

text \<open>
  \<^verbatim>\<open>random.shuffle(x)\<close>: for \<open>i\<close> from \<open>len(x) - 1\<close> down to \<open>1\<close>, draw \<open>j\<close> below \<open>i + 1\<close> and
  swap \<open>x[i]\<close> and \<open>x[j]\<close>. The list is changed in place, so the model returns it.
\<close>

fun shuffle_from :: "nat \<Rightarrow> 'a list \<Rightarrow> rng \<Rightarrow> 'a list \<times> rng" where
  "shuffle_from 0 x g = (x, g)"
| "shuffle_from (Suc k) x g =
     (let (j, g') = randbelow (Suc k + 1) g
      in shuffle_from k (x[Suc k := x ! j, j := x ! Suc k]) g')"

definition shuffle :: "'a list \<Rightarrow> rng \<Rightarrow> 'a list \<times> rng" where
  "shuffle x g = shuffle_from (length x - 1) x g"

text \<open>
  Returns the recommended courses, the argument list as the call leaves it, and the random
  source.
\<close>

definition course_recommender ::
  "(string \<times> string) list \<Rightarrow> rng \<Rightarrow> (string, string) dict list \<times> (string \<times> string) list \<times> rng" where
  "course_recommender course_list g =
     (let (course_list', g') = shuffle course_list g;
          recommended_courses =
            map (\<lambda>(c_name, c_link). [(''name'', c_name), (''link'', c_link)]) (take 5 course_list')
      in (recommended_courses, course_list', g'))"

section \<open>analyze_resume\<close>

subsection \<open>Candidate level\<close>

text \<open>
  Lines 90 to 97. The two tests for equality are false on \<^verbatim>\<open>None\<close>; the comparison
  \<^verbatim>\<open>page_count >= 3\<close> raises \<^verbatim>\<open>TypeError\<close> on it (the message is given without its quotation
  marks).
\<close>

definition cand_level_of :: "int option \<Rightarrow> exn + string" where
  "cand_level_of page_count =
     (if page_count = Some 1 then Inr ''Fresher''
      else if page_count = Some 2 then Inr ''Intermediate''
      else (case page_count of
              None \<Rightarrow> Inl (TypeError ''>= not supported between instances of NoneType and int'')
            | Some n \<Rightarrow> if n \<ge> 3 then Inr ''Experienced'' else Inr ''''))"

subsection \<open>Field and skill recommendation\<close>

definition ds_keyword :: "string list" where
  "ds_keyword = [''tensorflow'', ''keras'', ''pytorch'', ''machine learning'', ''deep learning'',
     ''flask'', ''streamlit'', ''python'']"

definition web_keyword :: "string list" where
  "web_keyword = [''react'', ''django'', ''node js'', ''react js'', ''php'', ''laravel'',
     ''magento'', ''wordpress'', ''javascript'', ''angular js'', ''c#'', ''flask'']"

definition android_keyword :: "string list" where
  "android_keyword = [''android'', ''android development'', ''flutter'', ''kotlin'', ''xml'',
     ''kivy'', ''java'']"

definition ios_keyword :: "string list" where
  "ios_keyword = [''ios'', ''ios development'', ''swift'', ''cocoa'', ''cocoa touch'', ''xcode'']"

definition uiux_keyword :: "string list" where
  "uiux_keyword = [''ux'', ''adobe xd'', ''figma'', ''zeplin'', ''balsamiq'', ''ui'',
     ''prototyping'', ''wireframe'', ''photoshop'', ''illustrator'']"

definition ds_skills :: "string list" where
  "ds_skills = [''Data Visualization'', ''Predictive Analysis'', ''Statistical Modeling'',
     ''Data Mining'', ''Clustering & Classification'', ''Data Analytics'',
     ''Quantitative Analysis'', ''Web Scraping'', ''ML Algorithms'', ''Keras'', ''Pytorch'',
     ''Probability'', ''Scikit-learn'', ''Tensorflow'', ''Flask'', ''Streamlit'']"

definition web_skills :: "string list" where
  "web_skills = [''React'', ''Django'', ''Node JS'', ''React JS'', ''php'', ''laravel'',
     ''Magento'', ''wordpress'', ''Javascript'', ''Angular JS'', ''c#'', ''Flask'', ''SDK'']"

definition android_skills :: "string list" where
  "android_skills = [''Android'', ''Android development'', ''Flutter'', ''Kotlin'', ''XML'',
     ''Java'', ''Kivy'', ''GIT'', ''SDK'', ''SQLite'']"

definition ios_skills :: "string list" where
  "ios_skills = [''IOS'', ''IOS Development'', ''Swift'', ''Cocoa'', ''Cocoa Touch'', ''Xcode'',
     ''Objective-C'', ''SQLite'', ''Plist'', ''StoreKit'', ''UI-Kit'', ''AV Foundation'',
     ''Auto-Layout'']"

definition uiux_skills :: "string list" where
  "uiux_skills = [''UI'', ''User Experience'', ''Adobe XD'', ''Figma'', ''Zeplin'', ''Balsamiq'',
     ''Prototyping'', ''Wireframes'', ''Storyframes'', ''Adobe Photoshop'', ''Editing'',
     ''Illustrator'', ''After Effects'', ''Premier Pro'', ''Indesign'']"

text \<open>
  Line 100: the set comprehension over \<^verbatim>\<open>resume_data.get('skills', [])\<close>; iterating
  \<^verbatim>\<open>None\<close> raises \<^verbatim>\<open>TypeError\<close>.
\<close>

definition skills_lower_of :: "string list option \<Rightarrow> exn + string set" where
  "skills_lower_of skills_value =
     (case skills_value of
        None \<Rightarrow> Inl (TypeError ''NoneType object is not iterable'')
      | Some skill_list \<Rightarrow> Inr (lower ` set skill_list))"

text \<open>
  Lines 109 to 133: the chain of \<^verbatim>\<open>if\<close>/\<^verbatim>\<open>elif\<close> over the lower-cased skills. It yields
  \<^verbatim>\<open>reco_field\<close>, \<^verbatim>\<open>recommended_skills\<close> and \<^verbatim>\<open>recommended_courses\<close>, and the state in
  which the list handed to \<^verbatim>\<open>course_recommender\<close> has been shuffled.
\<close>

definition match_field ::
  "string set \<Rightarrow> 'v world \<Rightarrow> (string \<times> string list \<times> (string, string) dict list) \<times> 'v world" where
  "match_field skills_lower w =
     (if \<exists>i\<in>skills_lower. i \<in> set ds_keyword then
        (let (rc, cl, g) = course_recommender (ds_course w) (rng w)
         in ((''Data Science'', ds_skills, rc), w\<lparr>ds_course := cl, rng := g\<rparr>))
      else if \<exists>i\<in>skills_lower. i \<in> set web_keyword then
        (let (rc, cl, g) = course_recommender (web_course w) (rng w)
         in ((''Web Development'', web_skills, rc), w\<lparr>web_course := cl, rng := g\<rparr>))
      else if \<exists>i\<in>skills_lower. i \<in> set android_keyword then
        (let (rc, cl, g) = course_recommender (android_course w) (rng w)
         in ((''Android Development'', android_skills, rc), w\<lparr>android_course := cl, rng := g\<rparr>))
      else if \<exists>i\<in>skills_lower. i \<in> set ios_keyword then
        (let (rc, cl, g) = course_recommender (ios_course w) (rng w)
         in ((''IOS Development'', ios_skills, rc), w\<lparr>ios_course := cl, rng := g\<rparr>))
      else if \<exists>i\<in>skills_lower. i \<in> set uiux_keyword then
        (let (rc, cl, g) = course_recommender (uiux_course w) (rng w)
         in ((''UI-UX Development'', uiux_skills, rc), w\<lparr>uiux_course := cl, rng := g\<rparr>))
      else ((''Other'', [], []), w))"

subsection \<open>Resume score\<close>

definition sections_to_check :: "(string, string list) dict" where
  "sections_to_check =
     [(''objective'', [''objective'', ''summary'']),
      (''declaration'', [''declaration'']),
      (''hobbies'', [''hobbies'', ''interests'']),
      (''achievements'', [''achievements'', ''awards'', ''certifications'']),
      (''projects'', [''projects'', ''experience'', ''work experience''])]"

text \<open>
  Lines 147 to 152: one round of the loop over \<^verbatim>\<open>sections_to_check.items()\<close>, on the pair of
  \<^verbatim>\<open>resume_score\<close> and \<^verbatim>\<open>score_breakdown\<close>.
\<close>

fun check_sections ::
  "(string, string list) dict \<Rightarrow> string \<Rightarrow> int \<times> (string, bool) dict \<Rightarrow> int \<times> (string, bool) dict" where
  "check_sections [] resume_text_lower (score, breakdown) = (score, breakdown)"
| "check_sections ((section, keywords) # items) resume_text_lower (score, breakdown) =
     (if list_ex (\<lambda>keyword. sublist keyword resume_text_lower) keywords
      then check_sections items resume_text_lower
             (score + 20, AList.update section True breakdown)
      else check_sections items resume_text_lower
             (score, AList.update section False breakdown))"

definition score_sections :: "string \<Rightarrow> int \<times> (string, bool) dict" where
  "score_sections resume_text_lower = check_sections sections_to_check resume_text_lower (0, [])"

subsection \<open>Video recommendations\<close>

text \<open>
  \<^verbatim>\<open>random.choice(videos) if videos else None\<close>; \<^verbatim>\<open>random.choice(seq)\<close> is
  \<^verbatim>\<open>seq[_randbelow(len(seq))]\<close> and is reached with a non-empty list only.
\<close>

definition video_rec :: "'v list \<Rightarrow> rng \<Rightarrow> 'v option \<times> rng" where
  "video_rec videos g =
     (if videos \<noteq> [] then (let (i, g') = randbelow (length videos) g in (Some (videos ! i), g'))
      else (None, g))"

subsection \<open>The analysis\<close>

definition analyze_resume :: "env \<Rightarrow> string \<Rightarrow> 'v world \<Rightarrow> (exn + 'v response) \<times> 'v world" where
  "analyze_resume env resume_path w =
     (let w1 = w\<lparr>calls := calls w @ [ResumeParser_call resume_path]\<rparr> in
      case get_extracted_data env resume_path of
        Inl e \<Rightarrow> (Inr (ErrorDict (''Error parsing resume with pyresparser: '' @ str e)), w1)
      | Inr None \<Rightarrow>
          (Inr (ErrorDict
             ''Could not extract any data from the resume. Is it a valid resume format?''), w1)
      | Inr (Some resume_data) \<Rightarrow>
          (let w2 = w1\<lparr>calls := calls w1 @ [pdf_reader_call resume_path]\<rparr> in
           case pdf_reader env resume_path of
             Inl e \<Rightarrow> (Inl e, w2)
           | Inr resume_text \<Rightarrow>
               (let resume_text_lower = lower resume_text;
                    page_count = dict_get_default (key_no_of_pages resume_data) 0
                in case cand_level_of page_count of
                     Inl e \<Rightarrow> (Inl e, w2)
                   | Inr cand_level \<Rightarrow>
                       (case skills_lower_of (dict_get_default (key_skills resume_data) []) of
                          Inl e \<Rightarrow> (Inl e, w2)
                        | Inr skills_lower \<Rightarrow>
                            (let ((reco_field, recommended_skills, recommended_courses), w3) =
                                   match_field skills_lower w2;
                                 (resume_score, score_breakdown) =
                                   score_sections resume_text_lower;
                                 (resume_video_rec, g4) = video_rec (resume_videos w3) (rng w3);
                                 (interview_video_rec, g5) = video_rec (interview_videos w3) g4
                             in (Inr (AnalysisDict
                                   \<lparr>name = dict_get (key_name resume_data),
                                    email = dict_get (key_email resume_data),
                                    mobile_number = dict_get (key_mobile_number resume_data),
                                    skills = dict_get (key_skills resume_data),
                                    no_of_pages = page_count,
                                    candidate_level = cand_level,
                                    predicted_field = reco_field,
                                    recommended_skills = recommended_skills,
                                    recommended_courses = recommended_courses,
                                    resume_score = resume_score,
                                    score_breakdown = score_breakdown,
                                    resume_video_rec = resume_video_rec,
                                    interview_video_rec = interview_video_rec,
                                    timestamp = now_isoformat env\<rparr>),
                                 w3\<lparr>rng := g5\<rparr>))))))"

section \<open>analyze_route\<close>

text \<open>
  Lines 213 to 230, the \<^verbatim>\<open>try\<close> block of the route once the upload is saved: the JSON body
  and the HTTP status. An exception that leaves \<^const>\<open>analyze_resume\<close> is caught here and
  answered with a fixed message.
\<close>

definition analyze_route :: "env \<Rightarrow> string \<Rightarrow> 'v world \<Rightarrow> ('v response \<times> nat) \<times> 'v world" where
  "analyze_route env file_path w =
     (case analyze_resume env file_path w of
        (Inl e, w') \<Rightarrow>
          ((ErrorDict ''An unexpected server error occurred during analysis.'', 500), w')
      | (Inr analysis_data, w') \<Rightarrow>
          (case analysis_data of
             ErrorDict msg \<Rightarrow> ((analysis_data, 400), w')
           | AnalysisDict r \<Rightarrow> ((analysis_data, 200), w')))"

section \<open>The specification's view\<close>

text \<open>
  The seniority tiers as the specification words them: one page is Fresher, two pages are
  Intermediate, three or more are Experienced; zero, a negative count or an unset count is the
  Unknown tier, which the analysis writes as the empty string.
\<close>

datatype level = Fresher | Intermediate | Experienced | Unknown

definition level_spec :: "int option \<Rightarrow> level" where
  "level_spec pageCount =
     (case pageCount of
        None \<Rightarrow> Unknown
      | Some n \<Rightarrow>
          if n \<le> 0 then Unknown
          else if n = 1 then Fresher
          else if n = 2 then Intermediate
          else Experienced)"

fun level_name :: "level \<Rightarrow> string" where
  "level_name Fresher = ''Fresher''"
| "level_name Intermediate = ''Intermediate''"
| "level_name Experienced = ''Experienced''"
| "level_name Unknown = ''''"

text \<open>
  The page count and the skill list that the analysis works with when the two entries do not
  hold \<^verbatim>\<open>None\<close>: the entry's value, or the default of an absent key.
\<close>

definition pages_of :: "resume_data \<Rightarrow> int" where
  "pages_of d = (case key_no_of_pages d of Holds n \<Rightarrow> n | Absent \<Rightarrow> 0 | Null \<Rightarrow> 0)"

definition skills_of :: "resume_data \<Rightarrow> string list" where
  "skills_of d = (case key_skills d of Holds xs \<Rightarrow> xs | Absent \<Rightarrow> [] | Null \<Rightarrow> [])"

text \<open>
  The classifier as the specification words it: the fields in their fixed precedence order,
  each with its keyword set; the answer is the first field whose keyword set meets the skill
  set, and \<open>Other\<close> when there is none.
\<close>

definition field_precedence :: "(string \<times> string list) list" where
  "field_precedence =
     [(''Data Science'', ds_keyword),
      (''Web Development'', web_keyword),
      (''Android Development'', android_keyword),
      (''IOS Development'', ios_keyword),
      (''UI-UX Development'', uiux_keyword)]"

definition classify_spec :: "string set \<Rightarrow> string" where
  "classify_spec S =
     (case find (\<lambda>(field, keywords). set keywords \<inter> S \<noteq> {}) field_precedence of
        None \<Rightarrow> ''Other''
      | Some (field, keywords) \<Rightarrow> field)"

text \<open>The catalogue that belongs to a predicted field.\<close>

definition catalog_of :: "'v world \<Rightarrow> string \<Rightarrow> (string \<times> string) list" where
  "catalog_of w field =
     (if field = ''Data Science'' then ds_course w
      else if field = ''Web Development'' then web_course w
      else if field = ''Android Development'' then android_course w
      else if field = ''IOS Development'' then ios_course w
      else if field = ''UI-UX Development'' then uiux_course w
      else [])"

text \<open>
  The catalogue list after successive calls of \<^const>\<open>course_recommender\<close> on it, one call for
  each listed state of the random source (other draws may happen between two calls).
\<close>

fun after_calls :: "rng list \<Rightarrow> (string \<times> string) list \<Rightarrow> (string \<times> string) list" where
  "after_calls [] course_list = course_list"
| "after_calls (g # gs) course_list =
     (let (rc, course_list', g') = course_recommender course_list g
      in after_calls gs course_list')"

section \<open>Sample inputs\<close>

definition sample_data :: resume_data where
  "sample_data =
     \<lparr>key_name = Holds ''Ada Lovelace'', key_email = Holds ''ada@example.org'',
      key_mobile_number = Null, key_skills = Holds [''Python'', ''TensorFlow''],
      key_no_of_pages = Holds 1\<rparr>"

definition null_pages_data :: resume_data where
  "null_pages_data =
     \<lparr>key_name = Holds ''Ada Lovelace'', key_email = Holds ''ada@example.org'',
      key_mobile_number = Null, key_skills = Holds [''Python'', ''TensorFlow''],
      key_no_of_pages = Null\<rparr>"

definition sample_env :: env where
  "sample_env =
     \<lparr>get_extracted_data = (\<lambda>path. Inr (Some sample_data)),
      get_pages = (\<lambda>path. Inr [Inr ''My Projects '', Inr ''and Certifications'']),
      now_isoformat = ''2024-05-01T10:00:00''\<rparr>"

definition null_pages_env :: env where
  "null_pages_env =
     \<lparr>get_extracted_data = (\<lambda>path. Inr (Some null_pages_data)),
      get_pages = (\<lambda>path. Inr [Inr ''My Projects '', Inr ''and Certifications'']),
      now_isoformat = ''2024-05-01T10:00:00''\<rparr>"

definition corrupt_env :: env where
  "corrupt_env =
     \<lparr>get_extracted_data = (\<lambda>path. Inl (Exception ''corrupt file'')),
      get_pages = (\<lambda>path. Inr []),
      now_isoformat = ''2024-05-01T10:00:00''\<rparr>"

definition empty_env :: env where
  "empty_env =
     \<lparr>get_extracted_data = (\<lambda>path. Inr None),
      get_pages = (\<lambda>path. Inr []),
      now_isoformat = ''2024-05-01T10:00:00''\<rparr>"

definition unreadable_env :: env where
  "unreadable_env =
     \<lparr>get_extracted_data = (\<lambda>path. Inr (Some sample_data)),
      get_pages = (\<lambda>path. Inl (Exception ''No /Root object! - Is this really a PDF?'')),
      now_isoformat = ''2024-05-01T10:00:00''\<rparr>"

definition two_courses :: "(string \<times> string) list" where
  "two_courses = [(''Machine Learning'', ''https://example.org/ml''),
                  (''Deep Learning'', ''https://example.org/dl'')]"

definition zero_rng :: rng where
  "zero_rng = (\<lambda>k. 0)"

definition sample_world :: "string world" where
  "sample_world =
     \<lparr>ds_course = two_courses, web_course = [], android_course = [], ios_course = [],
      uiux_course = [], resume_videos = [''https://example.org/resume-tips''],
      interview_videos = [], rng = zero_rng, calls = []\<rparr>"

definition longer_env :: env where
  "longer_env =
     \<lparr>get_extracted_data = (\<lambda>path. Inr (Some sample_data)),
      get_pages = (\<lambda>path. Inr [Inr ''Objective. '', Inr ''My Projects and Certifications'']),
      now_isoformat = ''2024-05-01T10:00:00''\<rparr>"

definition video_world :: "string world" where
  "video_world =
     \<lparr>ds_course = two_courses, web_course = [], android_course = [], ios_course = [],
      uiux_course = [],
      resume_videos = [''https://example.org/resume-1'', ''https://example.org/resume-2''],
      interview_videos = [''https://example.org/interview-1'', ''https://example.org/interview-2''],
      rng = zero_rng, calls = []\<rparr>"

section \<open>Auxiliary facts\<close>


lemma update_fresh: "k \<notin> fst ` set al \<Longrightarrow> AList.update k v al = al @ [(k, v)]"
  by (induction al) auto

lemma check_sections_eq:
  "distinct (map fst items) \<Longrightarrow> fst ` set items \<inter> fst ` set bd = {} \<Longrightarrow>
   check_sections items t (sc, bd) =
     (sc + 20 * int (length (filter (\<lambda>(s, kws). \<exists>kw\<in>set kws. sublist kw t) items)),
      bd @ map (\<lambda>(s, kws). (s, \<exists>kw\<in>set kws. sublist kw t)) items)"
proof (induction items arbitrary: sc bd)
  case Nil
  then show ?case by simp
next
  case (Cons it items)
  obtain s kws where it: "it = (s, kws)" by (cases it)
  define b where "b = (\<exists>kw\<in>set kws. sublist kw t)"
  from Cons.prems it have fresh: "s \<notin> fst ` set bd" by auto
  have disj: "fst ` set items \<inter> fst ` set (bd @ [(s, b)]) = {}"
    using Cons.prems it by auto
  from Cons.prems have dist: "distinct (map fst items)" by simp
  have step: "check_sections (it # items) t (sc, bd) =
     check_sections items t (if b then sc + 20 else sc, bd @ [(s, b)])"
    using fresh by (simp add: it update_fresh list_ex_iff b_def)
  show ?case
    unfolding step Cons.IH [OF dist disj]
    by (simp add: it b_def)
qed


lemma score_sections_eq:
  "score_sections t =
     (20 * int (length (filter (\<lambda>(s, kws). \<exists>kw\<in>set kws. sublist kw t) sections_to_check)),
      map (\<lambda>(s, kws). (s, \<exists>kw\<in>set kws. sublist kw t)) sections_to_check)"
proof -
  have "distinct (map fst sections_to_check)"
    by (simp add: sections_to_check_def)
  then show ?thesis
    unfolding score_sections_def by (simp add: check_sections_eq)
qed


lemma shuffle_from_mset: "k < length x \<Longrightarrow> mset (fst (shuffle_from k x g)) = mset x"
proof (induction k arbitrary: x g)
  case 0
  then show ?case by simp
next
  case (Suc k)
  define j where "j = g 0 mod (Suc k + 1)"
  define x' where "x' = x[Suc k := x ! j, j := x ! Suc k]"
  have "j < Suc k + 1" unfolding j_def by simp
  with Suc.prems have j: "j < length x" by simp
  have m: "mset x' = mset x"
    unfolding x'_def using mset_swap [OF j Suc.prems] .
  have k: "k < length x'"
    using Suc.prems by (simp add: x'_def)
  have "shuffle_from (Suc k) x g = shuffle_from k x' (\<lambda>n. g (Suc n))"
    by (simp add: randbelow_def j_def x'_def)
  then show ?case
    using Suc.IH [OF k] m by simp
qed

lemma shuffle_from_rng: "snd (shuffle_from k x g) = (\<lambda>n. g (n + k))"
  by (induction k arbitrary: x g) (simp_all add: randbelow_def)

lemma shuffle_mset: "mset (fst (shuffle x g)) = mset x"
proof (cases x)
  case Nil
  then show ?thesis by (simp add: shuffle_def)
next
  case (Cons a as)
  then show ?thesis unfolding shuffle_def by (simp add: shuffle_from_mset)
qed

lemma shuffle_rng: "snd (shuffle x g) = (\<lambda>n. g (n + (length x - 1)))"
  by (simp add: shuffle_def shuffle_from_rng)

lemma shuffle_length: "length (fst (shuffle x g)) = length x"
proof -
  have "size (mset (fst (shuffle x g))) = size (mset x)"
    by (simp only: shuffle_mset)
  then show ?thesis by simp
qed

lemma cand_level_of_spec:
  "cand_level_of (Some n) = Inr (level_name (level_spec (Some n)))"
  by (auto simp: cand_level_of_def level_spec_def)

lemma page_count_of:
  "key_no_of_pages d \<noteq> Null \<Longrightarrow> dict_get_default (key_no_of_pages d) 0 = Some (pages_of d)"
  by (cases "key_no_of_pages d") (simp_all add: pages_of_def)

lemma skills_lower_of_skills:
  "key_skills d \<noteq> Null \<Longrightarrow>
   skills_lower_of (dict_get_default (key_skills d) []) = Inr (lower ` set (skills_of d))"
  by (cases "key_skills d") (simp_all add: skills_of_def skills_lower_of_def)

lemma analyze_resume_success:
  assumes "get_extracted_data env p = Inr (Some d)" and "pdf_reader env p = Inr T"
    and "key_no_of_pages d \<noteq> Null" and "key_skills d \<noteq> Null"
  shows "analyze_resume env p w =
    (let w2 = w\<lparr>calls := calls w @ [ResumeParser_call p, pdf_reader_call p]\<rparr>;
         mf = match_field (lower ` set (skills_of d)) w2;
         ss = score_sections (lower T);
         v1 = video_rec (resume_videos (snd mf)) (rng (snd mf));
         v2 = video_rec (interview_videos (snd mf)) (snd v1)
     in (Inr (AnalysisDict
           \<lparr>name = dict_get (key_name d), email = dict_get (key_email d),
            mobile_number = dict_get (key_mobile_number d),
            skills = dict_get (key_skills d), no_of_pages = Some (pages_of d),
            candidate_level = level_name (level_spec (Some (pages_of d))),
            predicted_field = fst (fst mf),
            recommended_skills = fst (snd (fst mf)),
            recommended_courses = snd (snd (fst mf)),
            resume_score = fst ss, score_breakdown = snd ss,
            resume_video_rec = fst v1, interview_video_rec = fst v2,
            timestamp = now_isoformat env\<rparr>),
         (snd mf)\<lparr>rng := snd v2\<rparr>))"
  by (simp add: analyze_resume_def assms(1,2) page_count_of [OF assms(3)]
      skills_lower_of_skills [OF assms(4)] cand_level_of_spec Let_def split: prod.splits)

lemma analyze_resume_null_pages:
  assumes "get_extracted_data env p = Inr (Some d)" and "pdf_reader env p = Inr T"
    and "key_no_of_pages d = Null"
  shows "analyze_resume env p w =
    (Inl (TypeError ''>= not supported between instances of NoneType and int''),
     w\<lparr>calls := calls w @ [ResumeParser_call p, pdf_reader_call p]\<rparr>)"
  by (simp add: analyze_resume_def assms cand_level_of_def Let_def)

lemma analyze_resume_null_skills:
  assumes "get_extracted_data env p = Inr (Some d)" and "pdf_reader env p = Inr T"
    and "key_no_of_pages d \<noteq> Null" and "key_skills d = Null"
  shows "analyze_resume env p w =
    (Inl (TypeError ''NoneType object is not iterable''),
     w\<lparr>calls := calls w @ [ResumeParser_call p, pdf_reader_call p]\<rparr>)"
  by (simp add: analyze_resume_def assms(1,2,4) page_count_of [OF assms(3)]
      cand_level_of_spec skills_lower_of_def Let_def)

lemma analyze_resume_level:
  assumes "get_extracted_data env p = Inr (Some d)" and "pdf_reader env p = Inr T"
    and "key_no_of_pages d \<noteq> Null" and "key_skills d \<noteq> Null"
  shows "\<exists>r w'. analyze_resume env p w = (Inr (AnalysisDict r), w') \<and>
           no_of_pages r = Some (pages_of d) \<and>
           candidate_level r = level_name (level_spec (no_of_pages r))"
  by (simp add: analyze_resume_success [OF assms] Let_def)

lemma bex_mem_inter: "(\<exists>i\<in>S. i \<in> A) = (A \<inter> S \<noteq> {})"
  by auto

lemma match_field_field:
  "fst (fst (match_field S w)) =
     (if set ds_keyword \<inter> S \<noteq> {} then ''Data Science''
      else if set web_keyword \<inter> S \<noteq> {} then ''Web Development''
      else if set android_keyword \<inter> S \<noteq> {} then ''Android Development''
      else if set ios_keyword \<inter> S \<noteq> {} then ''IOS Development''
      else if set uiux_keyword \<inter> S \<noteq> {} then ''UI-UX Development''
      else ''Other'')"
  unfolding match_field_def bex_mem_inter
  by (simp split: prod.splits)

lemma breakdown_count:
  "length (filter snd (map (\<lambda>(s, kws). (s, P kws)) items)) =
   length (filter (\<lambda>(s, kws). P kws) items)"
  by (induction items) auto

lemma score_range:
  assumes "n \<le> (5::nat)"
  shows "20 * int n \<in> {0, 20, 40, 60, 80, 100}"
proof -
  from assms have "n = 0 \<or> n = 1 \<or> n = 2 \<or> n = 3 \<or> n = 4 \<or> n = 5" by arith
  then show ?thesis by auto
qed

lemma sections_count_le: "length (filter P sections_to_check) \<le> 5"
proof -
  have "length (filter P sections_to_check) \<le> length sections_to_check"
    by (rule length_filter_le)
  then show ?thesis by (simp add: sections_to_check_def)
qed

lemma breakdown_lookup:
  "\<forall>(section, keywords)\<in>set sections_to_check.
     map_of (map (\<lambda>(s, kws). (s, P kws)) sections_to_check) section = Some (P keywords)"
  by (simp add: sections_to_check_def)

lemma analyze_resume_scores:
  assumes "get_extracted_data env p = Inr (Some d)" and "pdf_reader env p = Inr T"
    and "key_no_of_pages d \<noteq> Null" and "key_skills d \<noteq> Null"
  shows "\<exists>r w'. analyze_resume env p w = (Inr (AnalysisDict r), w') \<and>
           resume_score r = fst (score_sections (lower T)) \<and>
           score_breakdown r = snd (score_sections (lower T))"
  by (simp add: analyze_resume_success [OF assms] Let_def)

lemma filter_length_mono:
  "(\<And>x. x \<in> set xs \<Longrightarrow> P x \<Longrightarrow> Q x) \<Longrightarrow> length (filter P xs) \<le> length (filter Q xs)"
  by (induction xs) auto

lemma present_mono:
  assumes "sublist T1 T2" and "\<exists>kw\<in>set kws. sublist kw (lower T1)"
  shows "\<exists>kw\<in>set kws. sublist kw (lower T2)"
proof -
  from assms(1) have "sublist (lower T1) (lower T2)"
    unfolding lower_def by (rule map_mono_sublist)
  with assms(2) show ?thesis
    by (meson sublist_order.order_trans)
qed

lemma breakdown_true_iff:
  "(sec, True) \<in> set (map (\<lambda>(s, kws). (s, P kws)) items) =
   (\<exists>kws. (sec, kws) \<in> set items \<and> P kws)"
  by (induction items) auto

lemma breakdown_mono:
  "(\<And>kws. P kws \<Longrightarrow> Q kws) \<Longrightarrow>
   (sec, True) \<in> set (map (\<lambda>(s, kws). (s, P kws)) items) \<Longrightarrow>
   (sec, True) \<in> set (map (\<lambda>(s, kws). (s, Q kws)) items)"
  unfolding breakdown_true_iff by blast

lemma course_recommender_eq:
  "course_recommender cl g =
     (map (\<lambda>(c_name, c_link). [(''name'', c_name), (''link'', c_link)]) (take 5 (fst (shuffle cl g))),
      fst (shuffle cl g), \<lambda>n. g (n + (length cl - 1)))"
  by (simp add: course_recommender_def case_prod_beta Let_def shuffle_rng)

lemma course_recommender_length:
  "length (fst (course_recommender cl g)) = min 5 (length cl)"
  by (simp add: course_recommender_eq shuffle_length min.commute)

lemma mset_take_subseteq: "mset (take n xs) \<subseteq># mset xs"
proof -
  have "mset xs = mset (take n xs) + mset (drop n xs)"
    by (metis append_take_drop_id mset_append)
  then show ?thesis by simp
qed

lemma inj_course_dict:
  "inj (\<lambda>(c_name :: string, c_link :: string). [(''name'', c_name), (''link'', c_link)])"
  by (auto simp: inj_on_def)

lemma after_calls_mset: "mset (after_calls gs cl) = mset cl"
  by (induction gs arbitrary: cl) (simp_all add: course_recommender_eq shuffle_mset)

lemma match_field_courses:
  "snd (snd (fst (match_field S w))) =
     (if fst (fst (match_field S w)) = ''Other'' then []
      else fst (course_recommender (catalog_of w (fst (fst (match_field S w)))) (rng w)))"
  by (simp add: match_field_def case_prod_beta Let_def catalog_of_def)

lemma match_field_videos:
  "resume_videos (snd (match_field S w)) = resume_videos w"
  "interview_videos (snd (match_field S w)) = interview_videos w"
  by (simp_all add: match_field_def case_prod_beta Let_def)


lemma match_field_draws:
  "\<exists>k. \<forall>g. rng (snd (match_field S (w\<lparr>rng := g\<rparr>))) = (\<lambda>n. g (n + k))"
proof -
  define k where "k =
     (if \<exists>i\<in>S. i \<in> set ds_keyword then length (ds_course w) - 1
      else if \<exists>i\<in>S. i \<in> set web_keyword then length (web_course w) - 1
      else if \<exists>i\<in>S. i \<in> set android_keyword then length (android_course w) - 1
      else if \<exists>i\<in>S. i \<in> set ios_keyword then length (ios_course w) - 1
      else if \<exists>i\<in>S. i \<in> set uiux_keyword then length (uiux_course w) - 1
      else 0)"
  have "rng (snd (match_field S (w\<lparr>rng := g\<rparr>))) = (\<lambda>n. g (n + k))" for g
    by (simp add: match_field_def case_prod_beta Let_def course_recommender_eq k_def)
  then show ?thesis by blast
qed

lemma video_rec_eq:
  "video_rec vs g =
     (if vs \<noteq> [] then (Some (vs ! (g 0 mod length vs)), \<lambda>k. g (Suc k)) else (None, g))"
  by (simp add: video_rec_def randbelow_def)



lemma catalog_of_calls: "catalog_of (w\<lparr>calls := c\<rparr>) f = catalog_of w f"
  by (simp add: catalog_of_def)

lemma sublist_after_prefix: "sublist ys (xs @ ys)"
  by (rule suffix_imp_sublist) (rule suffixI, rule refl)

lemma analyze_resume_raised:
  "get_extracted_data env p = Inl e \<Longrightarrow>
   analyze_resume env p w =
     (Inr (ErrorDict (''Error parsing resume with pyresparser: '' @ str e)),
      w\<lparr>calls := calls w @ [ResumeParser_call p]\<rparr>)"
  by (simp add: analyze_resume_def Let_def)

lemma analyze_resume_no_data:
  "get_extracted_data env p = Inr None \<Longrightarrow>
   analyze_resume env p w =
     (Inr (ErrorDict
        ''Could not extract any data from the resume. Is it a valid resume format?''),
      w\<lparr>calls := calls w @ [ResumeParser_call p]\<rparr>)"
  by (simp add: analyze_resume_def Let_def)

text \<open>
  An analysis produces a result exactly when the parser returns a usable record, the text
  extraction succeeds, and neither \<^verbatim>\<open>no_of_pages\<close> nor \<^verbatim>\<open>skills\<close> holds \<^verbatim>\<open>None\<close>. These are the
  hypotheses of the statements about successful analyses below.
\<close>

lemma analyze_resume_result_iff:
  "(\<exists>r w'. analyze_resume env p w = (Inr (AnalysisDict r), w')) =
   (\<exists>d T. get_extracted_data env p = Inr (Some d) \<and> pdf_reader env p = Inr T \<and>
      key_no_of_pages d \<noteq> Null \<and> key_skills d \<noteq> Null)"
proof
  assume ok: "\<exists>r w'. analyze_resume env p w = (Inr (AnalysisDict r), w')"
  show "\<exists>d T. get_extracted_data env p = Inr (Some d) \<and> pdf_reader env p = Inr T \<and>
      key_no_of_pages d \<noteq> Null \<and> key_skills d \<noteq> Null"
  proof (cases "get_extracted_data env p")
    case (Inl e)
    with ok show ?thesis by (simp add: analyze_resume_raised)
  next
    case (Inr data)
    show ?thesis
    proof (cases data)
      case None
      with Inr ok show ?thesis by (simp add: analyze_resume_no_data)
    next
      case (Some d)
      with Inr have parsed: "get_extracted_data env p = Inr (Some d)" by simp
      show ?thesis
      proof (cases "pdf_reader env p")
        case (Inl e)
        with parsed ok show ?thesis by (simp add: analyze_resume_def Let_def)
      next
        case extracted: (Inr T)
        have "key_no_of_pages d \<noteq> Null"
        proof
          assume "key_no_of_pages d = Null"
          from analyze_resume_null_pages [OF parsed extracted this, where w = w] ok show False by simp
        qed
        moreover have "key_skills d \<noteq> Null"
        proof
          assume "key_skills d = Null"
          from analyze_resume_null_skills [OF parsed extracted \<open>key_no_of_pages d \<noteq> Null\<close> this, where w = w] ok
          show False by simp
        qed
        ultimately show ?thesis using parsed extracted by blast
      qed
    qed
  qed
next
  assume "\<exists>d T. get_extracted_data env p = Inr (Some d) \<and> pdf_reader env p = Inr T \<and>
      key_no_of_pages d \<noteq> Null \<and> key_skills d \<noteq> Null"
  then obtain d T where "get_extracted_data env p = Inr (Some d)" "pdf_reader env p = Inr T"
    "key_no_of_pages d \<noteq> Null" "key_skills d \<noteq> Null" by blast
  then show "\<exists>r w'. analyze_resume env p w = (Inr (AnalysisDict r), w')"
    by (simp add: analyze_resume_success Let_def)
qed

lemma analyze_resume_videos:
  assumes "get_extracted_data env p = Inr (Some d)" and "pdf_reader env p = Inr T"
    and "key_no_of_pages d \<noteq> Null" and "key_skills d \<noteq> Null"
  shows "\<exists>r w'. analyze_resume env p w = (Inr (AnalysisDict r), w') \<and>
           (let g1 = rng (snd (match_field
                  (lower ` set (skills_of d))
                  (w\<lparr>calls := calls w @ [ResumeParser_call p, pdf_reader_call p]\<rparr>)))
            in resume_video_rec r = fst (video_rec (resume_videos w) g1) \<and>
               interview_video_rec r =
                 fst (video_rec (interview_videos w) (snd (video_rec (resume_videos w) g1)))) \<and>
           resume_videos w' = resume_videos w \<and> interview_videos w' = interview_videos w"
  by (simp add: analyze_resume_success [OF assms] Let_def match_field_videos)

lemma update_calls_rng: "w\<lparr>rng := g, calls := c\<rparr> = w\<lparr>calls := c, rng := g\<rparr>"
  by simp

lemma analyze_resume_video_choice:
  assumes "get_extracted_data env p = Inr (Some d)" and "pdf_reader env p = Inr T"
    and "key_no_of_pages d \<noteq> Null" and "key_skills d \<noteq> Null"
    and "i < length (resume_videos w)" and "j < length (interview_videos w)"
  shows "\<exists>g r w'. analyze_resume env p (w\<lparr>rng := g\<rparr>) = (Inr (AnalysisDict r), w') \<and>
           resume_video_rec r = Some (resume_videos w ! i) \<and>
           interview_video_rec r = Some (interview_videos w ! j)"
proof -
  define S where "S = lower ` set (skills_of d)"
  define w2 where "w2 = w\<lparr>calls := calls w @ [ResumeParser_call p, pdf_reader_call p]\<rparr>"
  obtain k where k: "\<And>g. rng (snd (match_field S (w2\<lparr>rng := g\<rparr>))) = (\<lambda>n. g (n + k))"
    using match_field_draws [of S w2] by blast
  define g :: rng where "g = (\<lambda>n. if n = k then i else j)"
  define g1 where "g1 = (\<lambda>n. g (n + k))"
  have w2g: "(w\<lparr>rng := g\<rparr>)\<lparr>calls := calls (w\<lparr>rng := g\<rparr>) @ [ResumeParser_call p, pdf_reader_call p]\<rparr>
      = w2\<lparr>rng := g\<rparr>"
    by (simp add: w2_def)
  obtain r w' where r: "analyze_resume env p (w\<lparr>rng := g\<rparr>) = (Inr (AnalysisDict r), w')"
    "resume_video_rec r = fst (video_rec (resume_videos w) g1)"
    "interview_video_rec r =
       fst (video_rec (interview_videos w) (snd (video_rec (resume_videos w) g1)))"
    using analyze_resume_videos [OF assms(1-4), of "w\<lparr>rng := g\<rparr>"]
    unfolding Let_def w2g S_def [symmetric] k g1_def [symmetric] by auto
  have ne: "resume_videos w \<noteq> []" "interview_videos w \<noteq> []"
    using assms(5,6) by auto
  have v1: "video_rec (resume_videos w) g1 = (Some (resume_videos w ! i), \<lambda>n. g1 (Suc n))"
    using ne(1) assms(5) by (simp add: video_rec_eq g1_def g_def)
  have v2: "fst (video_rec (interview_videos w) (\<lambda>n. g1 (Suc n))) = Some (interview_videos w ! j)"
    using ne(2) assms(6) by (simp add: video_rec_eq g1_def g_def)
  have "resume_video_rec r = Some (resume_videos w ! i)"
    by (simp add: r(2) v1)
  moreover have "interview_video_rec r = Some (interview_videos w ! j)"
    by (simp add: r(3) v1 v2)
  ultimately show ?thesis using r(1) by blast
qed

lemma sample_parsed: "get_extracted_data sample_env ''cv.pdf'' = Inr (Some sample_data)"
  by (simp add: sample_env_def)

lemma sample_text: "pdf_reader sample_env ''cv.pdf'' = Inr ''My Projects and Certifications''"
  by (simp add: pdf_reader_def sample_env_def)

lemma longer_parsed: "get_extracted_data longer_env ''cv2.pdf'' = Inr (Some sample_data)"
  by (simp add: longer_env_def)

lemma longer_text:
  "pdf_reader longer_env ''cv2.pdf'' = Inr ''Objective. My Projects and Certifications''"
  by (simp add: pdf_reader_def longer_env_def)

lemma sample_pages: "key_no_of_pages sample_data \<noteq> Null"
  by (simp add: sample_data_def)

lemma sample_skills: "key_skills sample_data \<noteq> Null"
  by (simp add: sample_data_def)

lemma sample_skills_list: "skills_of sample_data = [''Python'', ''TensorFlow'']"
  by (simp add: skills_of_def sample_data_def)

lemma sample_field:
  "fst (fst (match_field (lower ` set [''Python'', ''TensorFlow'']) w)) = ''Data Science''"
proof -
  have "set ds_keyword \<inter> lower ` set [''Python'', ''TensorFlow''] \<noteq> {}"
    by code_simp
  then show ?thesis unfolding match_field_field by (rule if_P)
qed

lemma sample_predicted:
  "analyze_resume sample_env ''cv.pdf'' w = (Inr (AnalysisDict r), w') \<Longrightarrow>
   predicted_field r = ''Data Science''"
  using sample_field
  by (auto simp: analyze_resume_success [OF sample_parsed sample_text sample_pages sample_skills] Let_def sample_skills_list
      simp del: set_simps list.set)

section \<open>Candidate level\<close>

text \<open>
  Claim C5. The candidate level should be a total function of the page count, with an unset
  count mapped to the Unknown tier, the empty string. The code does so for every integer and
  for an absent key, but not for a record whose \<^verbatim>\<open>no_of_pages\<close> holds \<^verbatim>\<open>None\<close>: the default of
  \<^verbatim>\<open>get\<close> does not apply, the comparison with 3 raises \<^verbatim>\<open>TypeError\<close>, and the analysis returns
  no level at all, where the specification assigns the Unknown tier.
\<close>

theorem candidate_level_none_raises:
  "get_extracted_data null_pages_env ''cv.pdf'' = Inr (Some null_pages_data) \<and>
   pdf_reader null_pages_env ''cv.pdf'' = Inr ''My Projects and Certifications'' \<and>
   key_no_of_pages null_pages_data = Null \<and>
   level_name (level_spec (dict_get (key_no_of_pages null_pages_data))) = '''' \<and>
   cand_level_of (dict_get_default (key_no_of_pages null_pages_data) 0) =
     Inl (TypeError ''>= not supported between instances of NoneType and int'') \<and>
   fst (analyze_resume null_pages_env ''cv.pdf'' sample_world) =
     Inl (TypeError ''>= not supported between instances of NoneType and int'')"
proof -
  have a: "get_extracted_data null_pages_env ''cv.pdf'' = Inr (Some null_pages_data)"
    by (simp add: null_pages_env_def)
  have b: "pdf_reader null_pages_env ''cv.pdf'' = Inr ''My Projects and Certifications''"
    by (simp add: pdf_reader_def null_pages_env_def)
  have c: "key_no_of_pages null_pages_data = Null"
    by (simp add: null_pages_data_def)
  have d: "level_name (level_spec (dict_get (key_no_of_pages null_pages_data))) = ''''"
    by (simp add: c level_spec_def)
  have e: "cand_level_of (dict_get_default (key_no_of_pages null_pages_data) 0) =
     Inl (TypeError ''>= not supported between instances of NoneType and int'')"
    by (simp add: c cand_level_of_def)
  have f: "fst (analyze_resume null_pages_env ''cv.pdf'' sample_world) =
     Inl (TypeError ''>= not supported between instances of NoneType and int'')"
    by (simp add: analyze_resume_null_pages [OF a b c])
  from a b c d e f show ?thesis by (intro conjI)
qed

section \<open>Field classifier\<close>

text \<open>
  Claim C1. For every set of lower-cased skills the field selected by the chain of tests is
  the first field, in the order Data Science, Web Development, Android Development, IOS
  Development, UI-UX Development, whose keyword list shares an element with the skills; it is
  \<open>Other\<close> exactly when no keyword list shares an element with them.
\<close>

theorem field_classifier_first_match:
  "fst (fst (match_field S w)) = classify_spec S \<and>
   (fst (fst (match_field S w)) = ''Other'') =
     (\<forall>(field, keywords)\<in>set field_precedence. set keywords \<inter> S = {})"
  unfolding match_field_field
  by (simp add: classify_spec_def field_precedence_def)

theorem field_classifier_first_match_witness:
  "fst (fst (match_field {''python'', ''tensorflow''} sample_world)) = ''Data Science'' \<and>
   fst (fst (match_field {''excel''} sample_world)) = ''Other''"
proof -
  have a: "classify_spec {''python'', ''tensorflow''} = ''Data Science''"
    by code_simp
  have b: "classify_spec {''excel''} = ''Other''"
    by code_simp
  from field_classifier_first_match [of "{''python'', ''tensorflow''}" sample_world]
       field_classifier_first_match [of "{''excel''}" sample_world] a b
  show ?thesis by (simp only:)
qed

section \<open>Section scanner\<close>

text \<open>
  Claim C2. For every extracted text, a section of the breakdown is true exactly when one of
  its keywords is contained in the lower-cased text; the score is twenty times the number of
  true entries of the breakdown and is one of 0, 20, 40, 60, 80, 100.
\<close>

theorem section_scanner_score:
  assumes "get_extracted_data env p = Inr (Some d)" and "pdf_reader env p = Inr T"
    and "key_no_of_pages d \<noteq> Null" and "key_skills d \<noteq> Null"
  shows "\<exists>r w'. analyze_resume env p w = (Inr (AnalysisDict r), w') \<and>
           (\<forall>(section, keywords)\<in>set sections_to_check.
              map_of (score_breakdown r) section =
                Some (\<exists>keyword\<in>set keywords. sublist keyword (lower T))) \<and>
           resume_score r = 20 * int (length (filter snd (score_breakdown r))) \<and>
           resume_score r \<in> {0, 20, 40, 60, 80, 100}"
proof -
  define ss where "ss = score_sections (lower T)"
  have bd: "snd ss = map (\<lambda>(s, kws). (s, \<exists>kw\<in>set kws. sublist kw (lower T))) sections_to_check"
    and sc: "fst ss = 20 * int (length (filter (\<lambda>(s, kws). \<exists>kw\<in>set kws. sublist kw (lower T)) sections_to_check))"
    by (simp_all add: ss_def score_sections_eq)
  have cnt: "length (filter snd (snd ss)) =
      length (filter (\<lambda>(s, kws). \<exists>kw\<in>set kws. sublist kw (lower T)) sections_to_check)"
    unfolding bd by (rule breakdown_count)
  have score: "fst ss = 20 * int (length (filter snd (snd ss)))"
    by (simp only: sc cnt)
  have range: "fst ss \<in> {0, 20, 40, 60, 80, 100}"
    unfolding sc by (rule score_range [OF sections_count_le])
  have present: "\<forall>(section, keywords)\<in>set sections_to_check.
      map_of (snd ss) section = Some (\<exists>keyword\<in>set keywords. sublist keyword (lower T))"
    unfolding bd by (rule breakdown_lookup)
  obtain r w' where r: "analyze_resume env p w = (Inr (AnalysisDict r), w')"
    "resume_score r = fst ss" "score_breakdown r = snd ss"
    unfolding ss_def using analyze_resume_scores [OF assms] by blast
  from score range present have
    "(\<forall>(section, keywords)\<in>set sections_to_check.
        map_of (score_breakdown r) section =
          Some (\<exists>keyword\<in>set keywords. sublist keyword (lower T))) \<and>
     resume_score r = 20 * int (length (filter snd (score_breakdown r))) \<and>
     resume_score r \<in> {0, 20, 40, 60, 80, 100}"
    unfolding r(2,3) by (intro conjI)
  with r(1) show ?thesis by blast
qed

theorem section_scanner_score_witness:
  "get_extracted_data sample_env ''cv.pdf'' = Inr (Some sample_data) \<and>
   pdf_reader sample_env ''cv.pdf'' = Inr ''My Projects and Certifications'' \<and>
   key_no_of_pages sample_data \<noteq> Null \<and> key_skills sample_data \<noteq> Null \<and>
   (\<exists>r w'. analyze_resume sample_env ''cv.pdf'' sample_world = (Inr (AnalysisDict r), w') \<and>
      map_of (score_breakdown r) ''projects'' = Some True \<and>
      map_of (score_breakdown r) ''hobbies'' = Some False \<and>
      resume_score r = 20 * int (length (filter snd (score_breakdown r))) \<and>
      resume_score r \<in> {0, 20, 40, 60, 80, 100})"
proof -
  obtain r w' where r: "analyze_resume sample_env ''cv.pdf'' sample_world = (Inr (AnalysisDict r), w')"
    and bd: "\<forall>(section, keywords)\<in>set sections_to_check.
              map_of (score_breakdown r) section =
                Some (\<exists>keyword\<in>set keywords. sublist keyword (lower ''My Projects and Certifications''))"
    and sc: "resume_score r = 20 * int (length (filter snd (score_breakdown r)))"
    and rg: "resume_score r \<in> {0, 20, 40, 60, 80, 100}"
    using section_scanner_score [OF sample_parsed sample_text sample_pages sample_skills, where w = sample_world] by blast
  have p: "(''projects'', [''projects'', ''experience'', ''work experience'']) \<in> set sections_to_check"
    and h: "(''hobbies'', [''hobbies'', ''interests'']) \<in> set sections_to_check"
    by (simp_all add: sections_to_check_def)
  have ep: "(\<exists>keyword\<in>set [''projects'', ''experience'', ''work experience''].
               sublist keyword (lower ''My Projects and Certifications'')) = True"
    by code_simp
  have eh: "(\<exists>keyword\<in>set [''hobbies'', ''interests''].
               sublist keyword (lower ''My Projects and Certifications'')) = False"
    by code_simp
  from bd p have "map_of (score_breakdown r) ''projects'' =
      Some (\<exists>keyword\<in>set [''projects'', ''experience'', ''work experience''].
               sublist keyword (lower ''My Projects and Certifications''))"
    by blast
  then have 1: "map_of (score_breakdown r) ''projects'' = Some True"
    by (simp only: ep)
  from bd h have "map_of (score_breakdown r) ''hobbies'' =
      Some (\<exists>keyword\<in>set [''hobbies'', ''interests''].
               sublist keyword (lower ''My Projects and Certifications''))"
    by blast
  then have 2: "map_of (score_breakdown r) ''hobbies'' = Some False"
    by (simp only: eh)
  from r 1 2 sc rg sample_parsed sample_text sample_pages sample_skills show ?thesis by blast
qed


section \<open>Keys of the breakdown\<close>

text \<open>
  Claim C9. Whatever the text, the breakdown of a successful analysis has exactly the five keys
  objective, declaration, hobbies, achievements and projects, each once, each with a truth
  value.
\<close>

theorem score_breakdown_keys:
  assumes "get_extracted_data env p = Inr (Some d)" and "pdf_reader env p = Inr T"
    and "key_no_of_pages d \<noteq> Null" and "key_skills d \<noteq> Null"
  shows "\<exists>r w'. analyze_resume env p w = (Inr (AnalysisDict r), w') \<and>
           map fst (score_breakdown r) =
             [''objective'', ''declaration'', ''hobbies'', ''achievements'', ''projects'']"
  by (simp add: analyze_resume_success [OF assms] Let_def score_sections_eq)
     (simp add: sections_to_check_def)

theorem score_breakdown_keys_witness:
  "get_extracted_data sample_env ''cv.pdf'' = Inr (Some sample_data) \<and>
   pdf_reader sample_env ''cv.pdf'' = Inr ''My Projects and Certifications'' \<and>
   key_no_of_pages sample_data \<noteq> Null \<and> key_skills sample_data \<noteq> Null \<and>
   (\<exists>r w'. analyze_resume sample_env ''cv.pdf'' sample_world = (Inr (AnalysisDict r), w') \<and>
      map fst (score_breakdown r) =
        [''objective'', ''declaration'', ''hobbies'', ''achievements'', ''projects''])"
  using score_breakdown_keys [OF sample_parsed sample_text sample_pages sample_skills, where w = sample_world]
    sample_parsed sample_text sample_pages sample_skills by blast


section \<open>Monotonicity of the scan\<close>

text \<open>
  Claim C10. When the text of one analysis is contained in the text of another, every section
  found in the first is found in the second, and the first score is at most the second.
\<close>

theorem section_scan_monotone:
  assumes "get_extracted_data env1 p1 = Inr (Some d1)" and "pdf_reader env1 p1 = Inr T1"
    and "key_no_of_pages d1 \<noteq> Null" and "key_skills d1 \<noteq> Null"
    and "get_extracted_data env2 p2 = Inr (Some d2)" and "pdf_reader env2 p2 = Inr T2"
    and "key_no_of_pages d2 \<noteq> Null" and "key_skills d2 \<noteq> Null"
    and "sublist T1 T2"
  shows "\<exists>r1 w1' r2 w2'.
           analyze_resume env1 p1 w1 = (Inr (AnalysisDict r1), w1') \<and>
           analyze_resume env2 p2 w2 = (Inr (AnalysisDict r2), w2') \<and>
           (\<forall>section. (section, True) \<in> set (score_breakdown r1) \<longrightarrow>
                      (section, True) \<in> set (score_breakdown r2)) \<and>
           resume_score r1 \<le> resume_score r2"
proof -
  let ?P1 = "\<lambda>kws. \<exists>kw\<in>set kws. sublist kw (lower T1)"
  let ?P2 = "\<lambda>kws. \<exists>kw\<in>set kws. sublist kw (lower T2)"
  obtain r1 w1' where r1: "analyze_resume env1 p1 w1 = (Inr (AnalysisDict r1), w1')"
    "resume_score r1 = fst (score_sections (lower T1))"
    "score_breakdown r1 = snd (score_sections (lower T1))"
    using analyze_resume_scores [OF assms(1-4)] by blast
  obtain r2 w2' where r2: "analyze_resume env2 p2 w2 = (Inr (AnalysisDict r2), w2')"
    "resume_score r2 = fst (score_sections (lower T2))"
    "score_breakdown r2 = snd (score_sections (lower T2))"
    using analyze_resume_scores [OF assms(5-8)] by blast
  have mono: "?P1 kws \<Longrightarrow> ?P2 kws" for kws
    by (rule present_mono [OF assms(9)])
  have "length (filter (\<lambda>(s, kws). ?P1 kws) sections_to_check)
      \<le> length (filter (\<lambda>(s, kws). ?P2 kws) sections_to_check)"
    by (rule filter_length_mono) (use mono in auto)
  then have le: "resume_score r1 \<le> resume_score r2"
    by (simp add: r1(2) r2(2) score_sections_eq)
  have "(sec, True) \<in> set (score_breakdown r1) \<Longrightarrow> (sec, True) \<in> set (score_breakdown r2)" for sec
    unfolding r1(3) r2(3) score_sections_eq snd_conv
    by (rule breakdown_mono [of ?P1 ?P2]) (use mono in auto)
  with r1(1) r2(1) le show ?thesis by blast
qed

theorem section_scan_monotone_witness:
  "get_extracted_data sample_env ''cv.pdf'' = Inr (Some sample_data) \<and>
   pdf_reader sample_env ''cv.pdf'' = Inr ''My Projects and Certifications'' \<and>
   key_no_of_pages sample_data \<noteq> Null \<and> key_skills sample_data \<noteq> Null \<and>
   get_extracted_data longer_env ''cv2.pdf'' = Inr (Some sample_data) \<and>
   pdf_reader longer_env ''cv2.pdf'' = Inr ''Objective. My Projects and Certifications'' \<and>
   sublist ''My Projects and Certifications'' ''Objective. My Projects and Certifications'' \<and>
   (\<exists>r1 w1' r2 w2'.
      analyze_resume sample_env ''cv.pdf'' sample_world = (Inr (AnalysisDict r1), w1') \<and>
      analyze_resume longer_env ''cv2.pdf'' sample_world = (Inr (AnalysisDict r2), w2') \<and>
      (\<forall>section. (section, True) \<in> set (score_breakdown r1) \<longrightarrow>
                 (section, True) \<in> set (score_breakdown r2)) \<and>
      resume_score r1 \<le> resume_score r2)"
proof -
  have sub: "sublist ''My Projects and Certifications'' ''Objective. My Projects and Certifications''"
    by code_simp
  from section_scan_monotone [OF sample_parsed sample_text sample_pages sample_skills longer_parsed longer_text sample_pages sample_skills sub,
      where ?w1.0 = sample_world and ?w2.0 = sample_world]
    sample_parsed sample_text sample_pages sample_skills longer_parsed longer_text sample_pages sample_skills sub
  show ?thesis by blast
qed


section \<open>Course recommender\<close>

text \<open>
  Claim C3, as amended. After any number of earlier calls on a catalogue, a call returns
  at most five entries (exactly the smaller of five and the catalogue length), built from
  entries of the catalogue with no entry used more often than the catalogue holds it, hence
  without duplicates when the catalogue has none; the catalogue keeps its length and its
  entries. Its order is not kept: the shuffle works in place.
\<close>

theorem course_recommender_sample:
  "(let cl = after_calls gs catalog;
        (rc, cl', g') = course_recommender cl g
    in length rc \<le> 5 \<and>
       length rc = min 5 (length catalog) \<and>
       (\<exists>picked. rc = map (\<lambda>(c_name, c_link). [(''name'', c_name), (''link'', c_link)]) picked \<and>
                 mset picked \<subseteq># mset catalog) \<and>
       (distinct catalog \<longrightarrow> distinct rc) \<and>
       mset cl' = mset catalog \<and> length cl' = length catalog \<and> set cl' = set catalog)"
proof -
  define cl where "cl = after_calls gs catalog"
  define cl' where "cl' = fst (shuffle cl g)"
  define rc where "rc = map (\<lambda>(c_name, c_link). [(''name'', c_name), (''link'', c_link)]) (take 5 cl')"
  have m: "mset cl = mset catalog"
    unfolding cl_def by (rule after_calls_mset)
  have m': "mset cl' = mset catalog"
    unfolding cl'_def using m by (simp add: shuffle_mset)
  have len: "length cl' = length catalog"
    using m' by (metis size_mset)
  have st: "set cl' = set catalog"
    using m' by (metis set_mset_mset)
  have sub: "mset (take 5 cl') \<subseteq># mset catalog"
    using mset_take_subseteq [of 5 cl'] m' by simp
  have d: "distinct rc" if "distinct catalog"
  proof -
    from that mset_eq_imp_distinct_iff [OF m'] have "distinct cl'" by simp
    then have "distinct (take 5 cl')" by (rule distinct_take)
    then show ?thesis
      unfolding rc_def
      by (simp add: distinct_map inj_on_subset [OF inj_course_dict])
  qed
  have l: "length rc = min 5 (length catalog)"
    by (simp add: rc_def len min.commute)
  have "course_recommender cl g = (rc, cl', \<lambda>n. g (n + (length cl - 1)))"
    by (simp add: course_recommender_eq rc_def cl'_def)
  moreover have "\<exists>picked. rc = map (\<lambda>(c_name, c_link). [(''name'', c_name), (''link'', c_link)]) picked \<and>
                 mset picked \<subseteq># mset catalog"
    using sub rc_def by blast
  ultimately show ?thesis
    using l d m' len st by (simp add: cl_def [symmetric])
qed

theorem course_recommender_sample_witness:
  "distinct two_courses \<and>
   (let cl = after_calls [zero_rng, zero_rng] two_courses;
        (rc, cl', g') = course_recommender cl zero_rng
    in length rc = 2 \<and> distinct rc \<and> mset cl' = mset two_courses)"
proof -
  have d: "distinct two_courses" and l: "length two_courses = 2"
    by (simp_all add: two_courses_def)
  from course_recommender_sample [of "[zero_rng, zero_rng]" two_courses zero_rng] d l
  show ?thesis
    by (simp add: case_prod_beta Let_def del: after_calls.simps)
qed

theorem course_recommender_order_counterexample:
  "fst (snd (course_recommender two_courses zero_rng)) =
     [(''Deep Learning'', ''https://example.org/dl''),
      (''Machine Learning'', ''https://example.org/ml'')] \<and>
   fst (snd (course_recommender two_courses zero_rng)) \<noteq> two_courses"
  by (simp add: course_recommender_def shuffle_def randbelow_def two_courses_def zero_rng_def)


section \<open>Number of recommended courses\<close>

text \<open>
  Claim C6. In a successful analysis the recommended courses are empty when the predicted
  field is \<open>Other\<close>, and otherwise number the smaller of five and the length of the catalogue
  of the predicted field.
\<close>

theorem recommended_courses_length:
  assumes "get_extracted_data env p = Inr (Some d)" and "pdf_reader env p = Inr T"
    and "key_no_of_pages d \<noteq> Null" and "key_skills d \<noteq> Null"
  shows "\<exists>r w'. analyze_resume env p w = (Inr (AnalysisDict r), w') \<and>
           (if predicted_field r = ''Other'' then recommended_courses r = []
            else length (recommended_courses r) =
                   min 5 (length (catalog_of w (predicted_field r))))"
  by (simp add: analyze_resume_success [OF assms] Let_def match_field_courses
      course_recommender_length catalog_of_calls)

theorem recommended_courses_length_witness:
  "get_extracted_data sample_env ''cv.pdf'' = Inr (Some sample_data) \<and>
   pdf_reader sample_env ''cv.pdf'' = Inr ''My Projects and Certifications'' \<and>
   key_no_of_pages sample_data \<noteq> Null \<and> key_skills sample_data \<noteq> Null \<and>
   (\<exists>r w'. analyze_resume sample_env ''cv.pdf'' sample_world = (Inr (AnalysisDict r), w') \<and>
      predicted_field r = ''Data Science'' \<and> length (recommended_courses r) = 2)"
proof -
  obtain r w' where r: "analyze_resume sample_env ''cv.pdf'' sample_world = (Inr (AnalysisDict r), w')"
    and c: "if predicted_field r = ''Other'' then recommended_courses r = []
            else length (recommended_courses r) =
                   min 5 (length (catalog_of sample_world (predicted_field r)))"
    using recommended_courses_length [OF sample_parsed sample_text sample_pages sample_skills, where w = sample_world]
    by blast
  have f: "predicted_field r = ''Data Science''"
    using r by (rule sample_predicted)
  have "length (catalog_of sample_world ''Data Science'') = 2"
    by (simp add: catalog_of_def sample_world_def two_courses_def)
  with c f have "length (recommended_courses r) = 2" by simp
  with r f sample_parsed sample_text sample_pages sample_skills show ?thesis by blast
qed


section \<open>Failure of the parser\<close>

text \<open>
  Claim C7. When the parser raises, or returns nothing usable, the analysis returns at once the
  error dictionary, whose text ends with the text of the exception in the first case and is
  the fixed message about no extracted data in the second; the only library call made is the
  one to the parser, so \<^verbatim>\<open>pdf_reader\<close> is not invoked.
\<close>

theorem parser_failure_short_circuits:
  "(get_extracted_data env p = Inl e \<longrightarrow>
      (\<exists>reason. analyze_resume env p w =
           (Inr (ErrorDict reason), w\<lparr>calls := calls w @ [ResumeParser_call p]\<rparr>) \<and>
         reason = ''Error parsing resume with pyresparser: '' @ str e \<and>
         sublist (str e) reason)) \<and>
   (get_extracted_data env p = Inr None \<longrightarrow>
      analyze_resume env p w =
        (Inr (ErrorDict
           ''Could not extract any data from the resume. Is it a valid resume format?''),
         w\<lparr>calls := calls w @ [ResumeParser_call p]\<rparr>)) \<and>
   (get_extracted_data env p = Inl e \<or> get_extracted_data env p = Inr None \<longrightarrow>
      (\<forall>q. pdf_reader_call q \<notin>
             set (drop (length (calls w)) (calls (snd (analyze_resume env p w))))))"
proof (intro conjI impI)
  assume "get_extracted_data env p = Inl e"
  then show "\<exists>reason. analyze_resume env p w =
           (Inr (ErrorDict reason), w\<lparr>calls := calls w @ [ResumeParser_call p]\<rparr>) \<and>
         reason = ''Error parsing resume with pyresparser: '' @ str e \<and>
         sublist (str e) reason"
    using analyze_resume_raised [of env p e w] sublist_after_prefix by blast
next
  assume "get_extracted_data env p = Inr None"
  then show "analyze_resume env p w =
        (Inr (ErrorDict
           ''Could not extract any data from the resume. Is it a valid resume format?''),
         w\<lparr>calls := calls w @ [ResumeParser_call p]\<rparr>)"
    by (rule analyze_resume_no_data)
next
  assume "get_extracted_data env p = Inl e \<or> get_extracted_data env p = Inr None"
  then have "calls (snd (analyze_resume env p w)) = calls w @ [ResumeParser_call p]"
    by (auto simp: analyze_resume_raised analyze_resume_no_data)
  then show "\<forall>q. pdf_reader_call q \<notin>
             set (drop (length (calls w)) (calls (snd (analyze_resume env p w))))"
    by simp
qed

theorem parser_failure_short_circuits_witness:
  "get_extracted_data corrupt_env ''cv.pdf'' = Inl (Exception ''corrupt file'') \<and>
   (\<exists>reason. analyze_resume corrupt_env ''cv.pdf'' sample_world =
        (Inr (ErrorDict reason), sample_world\<lparr>calls := calls sample_world @ [ResumeParser_call ''cv.pdf'']\<rparr>) \<and>
      sublist ''corrupt file'' reason) \<and>
   (\<forall>q. pdf_reader_call q \<notin> set (drop (length (calls sample_world))
        (calls (snd (analyze_resume corrupt_env ''cv.pdf'' sample_world))))) \<and>
   get_extracted_data empty_env ''cv.pdf'' = Inr None \<and>
   analyze_resume empty_env ''cv.pdf'' sample_world =
     (Inr (ErrorDict ''Could not extract any data from the resume. Is it a valid resume format?''),
      sample_world\<lparr>calls := calls sample_world @ [ResumeParser_call ''cv.pdf'']\<rparr>)"
proof -
  have a: "get_extracted_data corrupt_env ''cv.pdf'' = Inl (Exception ''corrupt file'')"
    by (simp add: corrupt_env_def)
  have b: "get_extracted_data empty_env ''cv.pdf'' = Inr None"
    by (simp add: empty_env_def)
  have s: "str (Exception ''corrupt file'') = ''corrupt file''"
    by simp
  from parser_failure_short_circuits [of corrupt_env "''cv.pdf''" "Exception ''corrupt file''" sample_world]
       parser_failure_short_circuits [of empty_env "''cv.pdf''" "Exception ''corrupt file''" sample_world]
       a b
  show ?thesis unfolding s by blast
qed


section \<open>Failure of the text extraction\<close>

text \<open>
  Claim C4, as amended. When the parser succeeds and \<^verbatim>\<open>pdf_reader\<close> raises, the analysis
  returns no dictionary: the exception leaves \<^const>\<open>analyze_resume\<close> unchanged, after both
  library calls, and the route answers it with status 500 and its fixed message.
\<close>

theorem pdf_reader_failure_propagates:
  assumes "get_extracted_data env p = Inr (Some d)" and "pdf_reader env p = Inl e"
  shows "analyze_resume env p w =
           (Inl e, w\<lparr>calls := calls w @ [ResumeParser_call p, pdf_reader_call p]\<rparr>) \<and>
         fst (analyze_route env p w) =
           (ErrorDict ''An unexpected server error occurred during analysis.'', 500)"
  by (simp add: analyze_route_def analyze_resume_def Let_def assms)

theorem pdf_reader_failure_propagates_witness:
  "get_extracted_data unreadable_env ''resume.pdf'' = Inr (Some sample_data) \<and>
   pdf_reader unreadable_env ''resume.pdf'' =
     Inl (Exception ''No /Root object! - Is this really a PDF?'') \<and>
   analyze_resume unreadable_env ''resume.pdf'' sample_world =
     (Inl (Exception ''No /Root object! - Is this really a PDF?''),
      sample_world\<lparr>calls := calls sample_world @
         [ResumeParser_call ''resume.pdf'', pdf_reader_call ''resume.pdf'']\<rparr>) \<and>
   fst (analyze_route unreadable_env ''resume.pdf'' sample_world) =
     (ErrorDict ''An unexpected server error occurred during analysis.'', 500)"
proof -
  have a: "get_extracted_data unreadable_env ''resume.pdf'' = Inr (Some sample_data)"
    by (simp add: unreadable_env_def)
  have b: "pdf_reader unreadable_env ''resume.pdf'' =
     Inl (Exception ''No /Root object! - Is this really a PDF?'')"
    by (simp add: pdf_reader_def unreadable_env_def)
  from pdf_reader_failure_propagates [OF a b, where w = sample_world] a b
  show ?thesis by blast
qed

theorem pdf_reader_failure_counterexample:
  "get_extracted_data unreadable_env ''cv.pdf'' = Inr (Some sample_data) \<and>
   pdf_reader unreadable_env ''cv.pdf'' = Inl (Exception ''No /Root object! - Is this really a PDF?'') \<and>
   fst (analyze_resume unreadable_env ''cv.pdf'' sample_world) =
     Inl (Exception ''No /Root object! - Is this really a PDF?'')"
  by (simp add: analyze_resume_def pdf_reader_def unreadable_env_def Let_def)

section \<open>Video recommendations\<close>

text \<open>
  Claim C8. In every analysis that produces a result, an empty video list gives the value
  \<^term>\<open>None\<close> for its recommendation and no error, a non-empty list gives one of its entries;
  both lists are left as they were; and the two entries are chosen by separate draws, so that
  every pair of an entry of the first list and an entry of the second is the outcome for some
  random source.
\<close>

theorem video_recommendations:
  assumes "get_extracted_data env p = Inr (Some d)" and "pdf_reader env p = Inr T"
    and "key_no_of_pages d \<noteq> Null" and "key_skills d \<noteq> Null"
  shows "(\<exists>r w'. analyze_resume env p w = (Inr (AnalysisDict r), w') \<and>
            (if resume_videos w = [] then resume_video_rec r = None
             else \<exists>v\<in>set (resume_videos w). resume_video_rec r = Some v) \<and>
            (if interview_videos w = [] then interview_video_rec r = None
             else \<exists>v\<in>set (interview_videos w). interview_video_rec r = Some v) \<and>
            resume_videos w' = resume_videos w \<and> interview_videos w' = interview_videos w) \<and>
         (\<forall>i < length (resume_videos w). \<forall>j < length (interview_videos w).
            \<exists>g r w'. analyze_resume env p (w\<lparr>rng := g\<rparr>) = (Inr (AnalysisDict r), w') \<and>
              resume_video_rec r = Some (resume_videos w ! i) \<and>
              interview_video_rec r = Some (interview_videos w ! j))"
proof (intro conjI allI impI)
  obtain r w' g1 where r: "analyze_resume env p w = (Inr (AnalysisDict r), w')"
    "resume_video_rec r = fst (video_rec (resume_videos w) g1)"
    "interview_video_rec r =
       fst (video_rec (interview_videos w) (snd (video_rec (resume_videos w) g1)))"
    "resume_videos w' = resume_videos w" "interview_videos w' = interview_videos w"
    using analyze_resume_videos [OF assms, of w] unfolding Let_def by blast
  have a: "if resume_videos w = [] then resume_video_rec r = None
           else \<exists>v\<in>set (resume_videos w). resume_video_rec r = Some v"
    unfolding r(2) by (simp add: video_rec_eq)
  have b: "if interview_videos w = [] then interview_video_rec r = None
           else \<exists>v\<in>set (interview_videos w). interview_video_rec r = Some v"
    unfolding r(3) by (simp add: video_rec_eq)
  from r(1,4,5) a b
  show "\<exists>r w'. analyze_resume env p w = (Inr (AnalysisDict r), w') \<and>
            (if resume_videos w = [] then resume_video_rec r = None
             else \<exists>v\<in>set (resume_videos w). resume_video_rec r = Some v) \<and>
            (if interview_videos w = [] then interview_video_rec r = None
             else \<exists>v\<in>set (interview_videos w). interview_video_rec r = Some v) \<and>
            resume_videos w' = resume_videos w \<and> interview_videos w' = interview_videos w"
    by blast
next
  fix i j
  assume "i < length (resume_videos w)" and "j < length (interview_videos w)"
  then show "\<exists>g r w'. analyze_resume env p (w\<lparr>rng := g\<rparr>) = (Inr (AnalysisDict r), w') \<and>
              resume_video_rec r = Some (resume_videos w ! i) \<and>
              interview_video_rec r = Some (interview_videos w ! j)"
    by (rule analyze_resume_video_choice [OF assms])
qed

theorem video_recommendations_witness:
  "get_extracted_data sample_env ''cv.pdf'' = Inr (Some sample_data) \<and>
   pdf_reader sample_env ''cv.pdf'' = Inr ''My Projects and Certifications'' \<and>
   key_no_of_pages sample_data \<noteq> Null \<and> key_skills sample_data \<noteq> Null \<and>
   (\<exists>g r w'. analyze_resume sample_env ''cv.pdf'' (video_world\<lparr>rng := g\<rparr>) =
        (Inr (AnalysisDict r), w') \<and>
      resume_video_rec r = Some ''https://example.org/resume-2'' \<and>
      interview_video_rec r = Some ''https://example.org/interview-1'') \<and>
   (\<exists>r w'. analyze_resume sample_env ''cv.pdf'' sample_world = (Inr (AnalysisDict r), w') \<and>
      resume_video_rec r = Some ''https://example.org/resume-tips'' \<and>
      interview_video_rec r = None \<and>
      resume_videos w' = resume_videos sample_world)"
proof -
  note v = video_recommendations [OF sample_parsed sample_text sample_pages sample_skills, where w = video_world]
  note s = video_recommendations [OF sample_parsed sample_text sample_pages sample_skills, where w = sample_world]
  have i: "1 < length (resume_videos video_world)" and j: "0 < length (interview_videos video_world)"
    by (simp_all add: video_world_def)
  have vi: "resume_videos video_world ! 1 = ''https://example.org/resume-2''"
    and vj: "interview_videos video_world ! 0 = ''https://example.org/interview-1''"
    by (simp_all add: video_world_def)
  from v i j have "\<exists>g r w'. analyze_resume sample_env ''cv.pdf'' (video_world\<lparr>rng := g\<rparr>) =
        (Inr (AnalysisDict r), w') \<and>
      resume_video_rec r = Some (resume_videos video_world ! 1) \<and>
      interview_video_rec r = Some (interview_videos video_world ! 0)"
    by blast
  then have 1: "\<exists>g r w'. analyze_resume sample_env ''cv.pdf'' (video_world\<lparr>rng := g\<rparr>) =
        (Inr (AnalysisDict r), w') \<and>
      resume_video_rec r = Some ''https://example.org/resume-2'' \<and>
      interview_video_rec r = Some ''https://example.org/interview-1''"
    unfolding vi vj .
  have rv: "resume_videos sample_world = [''https://example.org/resume-tips'']"
    and iv: "interview_videos sample_world = []"
    by (simp_all add: sample_world_def)
  from s have 2: "\<exists>r w'. analyze_resume sample_env ''cv.pdf'' sample_world = (Inr (AnalysisDict r), w') \<and>
      resume_video_rec r = Some ''https://example.org/resume-tips'' \<and>
      interview_video_rec r = None \<and>
      resume_videos w' = resume_videos sample_world"
    unfolding rv iv by auto
  from 1 2 sample_parsed sample_text sample_pages sample_skills show ?thesis by blast
qed

end
